theory Spec2Isabelle
  imports Main "HOL-Library.Sublist" "HOL-Library.Multiset"
begin

section \<open>Python primitives used by the module\<close>

text \<open>
  The module \<^verbatim>\<open>py3status/modules/xrandr.py\<close> is a class \<^verbatim>\<open>Py3status\<close> whose
  methods mutate the instance and run external commands. Strings are \<^typ>\<open>string\<close>
  (ASCII is assumed, so that \<^verbatim>\<open>len\<close> is \<^const>\<open>length\<close>), tuples and lists are lists,
  \<^verbatim>\<open>None\<close> is \<^const>\<open>None\<close>, an exception is the \<^const>\<open>Inl\<close> branch of a sum.
\<close>

datatype py_error = IndexError string | TypeError string

text \<open>\<^verbatim>\<open>sep.join(xs)\<close>.\<close>

fun py_join :: "string \<Rightarrow> string list \<Rightarrow> string" where
  "py_join sep [] = []"
| "py_join sep [x] = x"
| "py_join sep (x # y # ys) = x @ sep @ py_join sep (y # ys)"

text \<open>\<^verbatim>\<open>s.rstrip(chars)\<close> and \<^verbatim>\<open>s.strip(chars)\<close>: the argument is a set of characters, every
  trailing (and leading) character of the set is removed.\<close>

definition py_rstrip :: "string \<Rightarrow> string \<Rightarrow> string" where
  "py_rstrip chars s = rev (dropWhile (\<lambda>c. c \<in> set chars) (rev s))"

definition py_strip :: "string \<Rightarrow> string \<Rightarrow> string" where
  "py_strip chars s = dropWhile (\<lambda>c. c \<in> set chars) (py_rstrip chars s)"

text \<open>\<^verbatim>\<open>s.split(c)\<close> for a separator of one character: never the empty list, an empty
  field between two adjacent separators.\<close>

fun py_split :: "char \<Rightarrow> string \<Rightarrow> string list" where
  "py_split c [] = [[]]"
| "py_split c (x # xs) =
     (if x = c then [] # py_split c xs
      else (case py_split c xs of [] \<Rightarrow> [[x]] | w # ws \<Rightarrow> (x # w) # ws))"

text \<open>\<^verbatim>\<open>needle in hay\<close> on strings: substring test.\<close>

fun str_in :: "string \<Rightarrow> string \<Rightarrow> bool" where
  "str_in needle [] = (needle = [])"
| "str_in needle (c # cs) = (prefix needle (c # cs) \<or> str_in needle cs)"

text \<open>\<^verbatim>\<open>'{}'.format(n)\<close> for an integer.\<close>

fun show_nat :: "nat \<Rightarrow> string" where
  "show_nat n =
     (if n < 10 then [''0123456789'' ! n]
      else show_nat (n div 10) @ [''0123456789'' ! (n mod 10)])"

definition show_int :: "int \<Rightarrow> string" where
  "show_int i = (if i < 0 then CHR ''-'' # show_nat (nat (- i)) else show_nat (nat i))"

text \<open>\<^verbatim>\<open>'{}'.format(x)\<close> for a string or \<^verbatim>\<open>None\<close>.\<close>

definition format_opt :: "string option \<Rightarrow> string" where
  "format_opt x = (case x of None \<Rightarrow> ''None'' | Some s \<Rightarrow> s)"

text \<open>\<^verbatim>\<open>itertools.combinations(xs, r)\<close>: the sub-tuples of length \<open>r\<close>, in lexicographic
  order of the positions.\<close>

fun combinations :: "'a list \<Rightarrow> nat \<Rightarrow> 'a list list" where
  "combinations xs 0 = [[]]"
| "combinations [] (Suc r) = []"
| "combinations (x # xs) (Suc r) = map (Cons x) (combinations xs r) @ combinations xs (Suc r)"

text \<open>\<^verbatim>\<open>collections.deque\<close>: \<^verbatim>\<open>rotate(1)\<close> is \<^verbatim>\<open>appendleft(pop())\<close>, \<^verbatim>\<open>rotate(-1)\<close> is
  \<^verbatim>\<open>append(popleft())\<close>, \<^verbatim>\<open>rotate(n)\<close> repeats it; \<^verbatim>\<open>d[0]\<close> raises on the empty deque.\<close>

definition rotate_right1 :: "'a list \<Rightarrow> 'a list" where
  "rotate_right1 xs = (if xs = [] then [] else last xs # butlast xs)"

definition deque_rotate :: "int \<Rightarrow> 'a list \<Rightarrow> 'a list" where
  "deque_rotate n xs =
     (if 0 \<le> n then (rotate_right1 ^^ nat n) xs else (rotate1 ^^ nat (- n)) xs)"

definition deque_first :: "'a list \<Rightarrow> py_error + 'a" where
  "deque_first xs =
     (case xs of [] \<Rightarrow> Inl (IndexError ''deque index out of range'') | x # _ \<Rightarrow> Inr x)"

text \<open>\<^verbatim>\<open>collections.OrderedDict\<close>: an association list in insertion order; assigning an
  existing key keeps its position.\<close>

fun od_set :: "'k \<Rightarrow> 'v \<Rightarrow> ('k \<times> 'v) list \<Rightarrow> ('k \<times> 'v) list" where
  "od_set k v [] = [(k, v)]"
| "od_set k v ((k', v') # kvs) =
     (if k' = k then (k, v) # kvs else (k', v') # od_set k v kvs)"

text \<open>\<^verbatim>\<open>set.add\<close>, the set kept as a duplicate-free list. The order in which Python
  iterates a set of strings is unspecified; where the module iterates the set
  (\<^verbatim>\<open>deque(available_combinations)\<close>) the model applies a parameter \<open>set_iter\<close>, which
  stands for that order and is only ever assumed to be a permutation.\<close>

definition set_add :: "'a \<Rightarrow> 'a list \<Rightarrow> 'a list" where
  "set_add x xs = (if x \<in> set xs then xs else xs @ [x])"

section \<open>The instance and its environment\<close>

datatype comb_mode = Clone | Extend

text \<open>What the module does to the outside world, in order: \<^verbatim>\<open>Popen\<close> of the detection
  command, \<^verbatim>\<open>call(shlex.split(cmd))\<close>, \<^verbatim>\<open>syslog\<close> and \<^verbatim>\<open>sleep\<close>. Tokenising and launching
  a command is one external step that hands the command line over and is taken not to
  raise; the exit status of the layout command is read from a parameter \<open>run\<close>, a
  function of the history and of the command line.\<close>

datatype event = Popen string | Call string | Syslog string | Sleep nat

record output_info =
  infos :: string
  mode :: "string option"
  state :: string

record layout_t =
  connected :: "(string \<times> output_info) list"
  disconnected :: "(string \<times> output_info) list"

text \<open>The instance: the configuration parameters, the dynamic \<^verbatim>\<open><OUTPUT>_pos\<close> and
  \<^verbatim>\<open><OUTPUT>_workspaces\<close> attributes (read with \<^verbatim>\<open>getattr\<close>, here a map from the
  attribute name to a string; the class has no attribute of its own whose name ends in
  \<^verbatim>\<open>_pos\<close>, and the method \<^verbatim>\<open>_apply_workspaces\<close>, which an output named \<^verbatim>\<open>_apply\<close> would
  reach, is left out), the fields set by \<^verbatim>\<open>__init__\<close> and by the refresh cycle, and the
  history of external effects. \<^verbatim>\<open>layout\<close>, \<^verbatim>\<open>available_combinations\<close> and
  \<^verbatim>\<open>combinations_map\<close> do not exist before the first cycle; they start empty here.\<close>

record py3status =
  cache_timeout :: int
  fallback :: bool
  fixed_width :: bool
  force_on_start :: "string option"
  format_clone :: string
  format_extend :: string
  attrs :: "string \<rightharpoonup> string"
  active_comb :: "string list option"
  active_layout :: "string option"
  active_mode :: "comb_mode option"
  displayed :: "string option"
  max_width :: nat
  layout :: layout_t
  available_combinations :: "string list"
  combinations_map :: "string \<rightharpoonup> (string list \<times> comb_mode option)"
  trace :: "event list"

definition init :: py3status where
  "init = \<lparr> cache_timeout = 10, fallback = True, fixed_width = True, force_on_start = None,
     format_clone = ''='', format_extend = ''+'', attrs = Map.empty,
     active_comb = None, active_layout = None, active_mode = Some Extend,
     displayed = None, max_width = 0,
     layout = \<lparr> connected = [], disconnected = [] \<rparr>,
     available_combinations = [], combinations_map = Map.empty, trace = [] \<rparr>"

record i3s_config =
  color_bad :: string
  color_degraded :: string
  color_good :: string

record response =
  cached_until :: int
  full_text :: "string option"
  color :: "string option"

section \<open>Display strings\<close>

definition separator :: "comb_mode option \<Rightarrow> py3status \<Rightarrow> string option" where
  "separator m st =
     (if m = Some Extend then Some (format_extend st)
      else if m = Some Clone then Some (format_clone st)
      else None)"

definition get_string_and_set_width ::
  "string list \<Rightarrow> comb_mode option \<Rightarrow> py3status \<Rightarrow> string \<times> py3status" where
  "get_string_and_set_width combination m st =
     (let sep = format_opt (separator m st);
          show0 = py_join sep combination;
          show1 = py_rstrip sep show0
      in (show1, st\<lparr>max_width := max (max_width st) (length show1)\<rparr>))"

section \<open>Detection\<close>

text \<open>The body of the \<^verbatim>\<open>try\<close> of \<^verbatim>\<open>_get_layout\<close> for one line of the detection command:
  \<^const>\<open>Inl\<close> when an index is out of range, \<open>Inr None\<close> for \<^verbatim>\<open>continue\<close>, else the
  output, its record and whether it was appended to \<^verbatim>\<open>active_layout\<close>.\<close>

definition parse_line :: "string \<Rightarrow> py_error + (string \<times> output_info \<times> bool) option" where
  "parse_line line =
     (let s = py_split CHR '' '' line in
      case s of
        s0 # s1 # rest \<Rightarrow>
          if s1 = ''connected'' then
            (case rest of
               [] \<Rightarrow> Inl (IndexError ''list index out of range'')
             | s2 # _ \<Rightarrow>
                 (case s2 of
                    [] \<Rightarrow> Inl (IndexError ''string index out of range'')
                  | c # _ \<Rightarrow>
                      if c = CHR ''('' then
                        Inr (Some (s0, \<lparr> infos = py_strip [CHR 0x0A] (py_join '' '' (drop 2 s)),
                                         mode = None, state = s1 \<rparr>, False))
                      else
                        Inr (Some (s0, \<lparr> infos = py_strip [CHR 0x0A] (py_join '' '' (drop 3 s)),
                                         mode = Some s2, state = s1 \<rparr>, True))))
          else if s1 = ''disconnected'' then
            Inr (Some (s0, \<lparr> infos = py_strip [CHR 0x0A] (py_join '' '' (drop 2 s)),
                             mode = None, state = s1 \<rparr>, False))
          else Inr None
      | _ \<Rightarrow> Inl (IndexError ''list index out of range''))"

definition err_text :: "py_error \<Rightarrow> string" where
  "err_text e = (case e of IndexError m \<Rightarrow> m | TypeError m \<Rightarrow> m)"

definition get_layout_line ::
  "string \<Rightarrow> layout_t \<times> string list \<times> event list \<Rightarrow> layout_t \<times> string list \<times> event list" where
  \<open>get_layout_line line acc =
     (case acc of (lay, active, tr) \<Rightarrow>
        (case parse_line line of
           Inl err \<Rightarrow> (lay, active, tr @ [Syslog (''xrandr error="'' @ err_text err @ ''"'')])
         | Inr None \<Rightarrow> (lay, active, tr)
         | Inr (Some (output, info, is_active)) \<Rightarrow>
             (if state info = ''connected''
              then lay\<lparr>connected := od_set output info (connected lay)\<rparr>
              else lay\<lparr>disconnected := od_set output info (disconnected lay)\<rparr>,
              if is_active then active @ [output] else active,
              tr)))\<close>

text \<open>\<^verbatim>\<open>_get_layout\<close>; \<open>lines\<close> is what the detection command printed.\<close>

definition get_layout :: "string list \<Rightarrow> py3status \<Rightarrow> layout_t \<times> py3status" where
  "get_layout lines st =
     (case fold get_layout_line lines
             (\<lparr> connected = [], disconnected = [] \<rparr>, [], trace st @ [Popen ''xrandr''])
      of (lay, active, tr) \<Rightarrow>
        (let st1 = st\<lparr>trace := tr\<rparr> in
         if active_layout st1 = None then
           (case get_string_and_set_width active (active_mode st1)
                   (st1\<lparr>active_comb := Some active\<rparr>)
            of (s, st2) \<Rightarrow> (lay, st2\<lparr>active_layout := Some s\<rparr>))
         else (lay, st1)))"

section \<open>Combination generator\<close>

text \<open>The body of \<^verbatim>\<open>for mode in ['clone', 'extend']\<close>; the accumulator is the local set,
  the local map and the instance (whose \<^verbatim>\<open>max_width\<close> changes).\<close>

definition add_combination ::
  "string list \<Rightarrow> comb_mode \<Rightarrow>
   string list \<times> (string \<rightharpoonup> (string list \<times> comb_mode option)) \<times> py3status \<Rightarrow>
   string list \<times> (string \<rightharpoonup> (string list \<times> comb_mode option)) \<times> py3status" where
  "add_combination comb m acc =
     (case acc of (available, cmap, st) \<Rightarrow>
        (case get_string_and_set_width comb (Some m) st of (string, st') \<Rightarrow>
           (set_add string available,
            (if length comb = 1 then cmap(string \<mapsto> (comb, None))
             else cmap(string \<mapsto> (comb, Some m))),
            st')))"

definition set_available_combinations ::
  "(string list \<Rightarrow> string list) \<Rightarrow> py3status \<Rightarrow> py3status" where
  "set_available_combinations set_iter st =
     (case fold (\<lambda>output acc.
              fold (\<lambda>comb acc.
                  if comb \<noteq> [] then fold (add_combination comb) [Clone, Extend] acc else acc)
                (combinations (map fst (connected (layout st))) output) acc)
            [0 ..< length (connected (layout st)) + 1]
            ([], Map.empty, st\<lparr>max_width := 0\<rparr>)
      of (available, cmap, st') \<Rightarrow>
        st'\<lparr>available_combinations := set_iter available, combinations_map := cmap\<rparr>)"

section \<open>Selection tracker\<close>

text \<open>\<^verbatim>\<open>_choose_what_to_display\<close>: the \<^verbatim>\<open>for ... else\<close> loop, \<open>n\<close> the iterations left.\<close>

fun choose_loop :: "nat \<Rightarrow> bool \<Rightarrow> py3status \<Rightarrow> py_error + py3status" where
  \<open>choose_loop 0 force_refresh st =
     (if force_refresh then
        (case deque_first (available_combinations st) of
           Inl e \<Rightarrow> Inl e
         | Inr h \<Rightarrow> Inr (st\<lparr>displayed := Some h\<rparr>))
      else Inr (st\<lparr>trace := trace st @
                  [Syslog ''xrandr error="displayed combination is not available"'']\<rparr>))\<close>
| \<open>choose_loop (Suc n) force_refresh st =
     (case deque_first (available_combinations st) of
        Inl e \<Rightarrow> Inl e
      | Inr h \<Rightarrow>
          if displayed st = None \<and> Some h = active_layout st then Inr (st\<lparr>displayed := Some h\<rparr>)
          else if displayed st = Some h then Inr st
          else choose_loop n force_refresh
                 (st\<lparr>available_combinations := deque_rotate 1 (available_combinations st)\<rparr>))\<close>

definition choose_what_to_display :: "bool \<Rightarrow> py3status \<Rightarrow> py_error + py3status" where
  "choose_what_to_display force_refresh st =
     choose_loop (length (available_combinations st)) force_refresh st"

text \<open>\<^verbatim>\<open>_center\<close>: \<^verbatim>\<open>'{:^N}'.format(s)\<close>. Python 3 refuses a format specification for
  \<^verbatim>\<open>None\<close>; a string is padded with spaces, the smaller half on the left.\<close>

definition center :: "string option \<Rightarrow> py3status \<Rightarrow> py_error + string" where
  "center s st =
     (case s of
        None \<Rightarrow> Inl (TypeError ''unsupported format string passed to NoneType.__format__'')
      | Some t \<Rightarrow>
          (let pad = max_width st - length t; l = pad div 2
           in Inr (replicate l CHR '' '' @ t @ replicate (pad - l) CHR '' '')))"

definition switch_selection :: "int \<Rightarrow> py3status \<Rightarrow> py_error + py3status" where
  "switch_selection direction st =
     (let st1 = st\<lparr>available_combinations := deque_rotate direction (available_combinations st)\<rparr>
      in case deque_first (available_combinations st1) of
           Inl e \<Rightarrow> Inl e
         | Inr h \<Rightarrow> Inr (st1\<lparr>displayed := Some h\<rparr>))"

section \<open>Command synthesizer and workspace planner\<close>

text \<open>\<^verbatim>\<open>getattr(self, name, default)\<close> on the dynamic attributes.\<close>

definition getattr :: "py3status \<Rightarrow> string \<Rightarrow> string \<Rightarrow> string" where
  "getattr st name dflt = (case attrs st name of None \<Rightarrow> dflt | Some v \<Rightarrow> v)"

text \<open>The body of \<^verbatim>\<open>for output in outputs\<close> of \<^verbatim>\<open>_apply\<close>; the accumulator is \<^verbatim>\<open>cmd\<close> and
  \<^verbatim>\<open>previous_output\<close>.\<close>

definition apply_output ::
  "py3status \<Rightarrow> string list \<Rightarrow> comb_mode option \<Rightarrow> string \<Rightarrow>
   string \<times> string option \<Rightarrow> string \<times> string option" where
  "apply_output st combination m output acc =
     (case acc of (cmd, previous_output) \<Rightarrow>
        (let cmd1 = cmd @ '' --output '' @ output in
         if output \<in> set combination then
           (let pos = getattr st (output @ ''_pos'') ''0x0'' in
            (case (if m = Some Clone then previous_output else None) of
               Some prev \<Rightarrow> (cmd1 @ '' --auto --same-as '' @ prev, Some output)
             | None \<Rightarrow>
                 if str_in ''above'' pos \<or> str_in ''below'' pos \<or>
                    str_in ''left-of'' pos \<or> str_in ''right-of'' pos
                 then (cmd1 @ '' --auto --'' @ pos @ '' --rotate normal'', Some output)
                 else (cmd1 @ '' --auto --pos '' @ pos @ '' --rotate normal'', Some output)))
         else (cmd1 @ '' --off'', previous_output)))"

text \<open>The local \<^verbatim>\<open>outputs\<close>: the connected keys, then the disconnected keys.\<close>

definition all_outputs :: "py3status \<Rightarrow> string list" where
  "all_outputs st = map fst (connected (layout st)) @ map fst (disconnected (layout st))"

text \<open>The command line that \<^verbatim>\<open>_apply\<close> builds for a combination and its mode.\<close>

definition apply_command :: "py3status \<Rightarrow> string list \<Rightarrow> comb_mode option \<Rightarrow> string" where
  "apply_command st combination m =
     fst (fold (apply_output st combination m) (all_outputs st) (''xrandr'', None))"

text \<open>\<^verbatim>\<open>_apply_workspaces\<close>.\<close>

definition move_workspace :: "string \<Rightarrow> string \<Rightarrow> py3status \<Rightarrow> py3status" where
  \<open>move_workspace output workspace st =
     (if workspace = [] then st
      else st\<lparr>trace := trace st @
             [Call (''i3-msg workspace "'' @ workspace @ ''"''),
              Call (''i3-msg move workspace to output "'' @ output @ ''"''),
              Syslog (''moved workspace '' @ workspace @ '' to output '' @ output)]\<rparr>)\<close>

definition apply_workspaces :: "string list \<Rightarrow> comb_mode option \<Rightarrow> py3status \<Rightarrow> py3status" where
  "apply_workspaces combination m st =
     (if length combination > 1 \<and> m = Some Extend then
        fold (\<lambda>output st.
                fold (move_workspace output)
                  (py_split CHR '','' (getattr st (output @ ''_workspaces'') [])) st)
          combination (st\<lparr>trace := trace st @ [Sleep 3]\<rparr>)
      else st)"

text \<open>\<^verbatim>\<open>_apply\<close>.\<close>

definition apply_py :: "(event list \<Rightarrow> string \<Rightarrow> int) \<Rightarrow> bool \<Rightarrow> py3status \<Rightarrow> py3status" where
  \<open>apply_py run force st =
     (if displayed st = active_layout st \<and> \<not> force then st
      else
        (case (case displayed st of None \<Rightarrow> None | Some d \<Rightarrow> combinations_map st d) of
           None \<Rightarrow> st
         | Some (combination, m) \<Rightarrow>
             (let cmd = apply_command st combination m;
                  code = run (trace st) cmd;
                  st1 = st\<lparr>trace := trace st @ [Call cmd]\<rparr>;
                  st2 = (if code = 0
                         then st1\<lparr>active_comb := Some combination,
                                  active_layout := displayed st1,
                                  active_mode := m\<rparr>
                         else st1);
                  st3 = st2\<lparr>trace := trace st2 @
                          [Syslog (''command "'' @ cmd @ ''" exit code '' @ show_int code)]\<rparr>
              in apply_workspaces combination m st3)))\<close>

section \<open>Fallback, forced start, events and the refresh cycle\<close>

definition refresh_py3status :: "py3status \<Rightarrow> py3status" where
  "refresh_py3status st = st\<lparr>trace := trace st @ [Call ''killall -s USR1 py3status'']\<rparr>"

definition fallback_to_available_output ::
  "(event list \<Rightarrow> string \<Rightarrow> int) \<Rightarrow> py3status \<Rightarrow> py_error + py3status" where
  "fallback_to_available_output run st =
     (case active_comb st of
        None \<Rightarrow> Inl (TypeError ''object of type 'NoneType' has no len()'')
      | Some comb \<Rightarrow>
          if length comb = 1 then
            (case choose_what_to_display True st of
               Inl e \<Rightarrow> Inl e
             | Inr st1 \<Rightarrow> Inr (refresh_py3status (apply_py run False st1)))
          else Inr st)"

text \<open>\<^verbatim>\<open>x in self.available_combinations\<close> for a string or \<^verbatim>\<open>None\<close>.\<close>

definition in_available :: "string option \<Rightarrow> py3status \<Rightarrow> bool" where
  "in_available x st = (case x of None \<Rightarrow> False | Some s \<Rightarrow> s \<in> set (available_combinations st))"

definition force_force_on_start ::
  "(event list \<Rightarrow> string \<Rightarrow> int) \<Rightarrow> py3status \<Rightarrow> py_error + py3status" where
  "force_force_on_start run st =
     (if in_available (force_on_start st) st then
        (case choose_what_to_display True
                (st\<lparr>displayed := force_on_start st, force_on_start := None\<rparr>) of
           Inl e \<Rightarrow> Inl e
         | Inr st1 \<Rightarrow> Inr (refresh_py3status (apply_py run True st1)))
      else Inr st)"

definition on_click ::
  "(event list \<Rightarrow> string \<Rightarrow> int) \<Rightarrow> int \<Rightarrow> py3status \<Rightarrow> py_error + py3status" where
  "on_click run button st =
     (case (if button = 4 then switch_selection (- 1) st else Inr st) of
        Inl e \<Rightarrow> Inl e
      | Inr st1 \<Rightarrow>
          (case (if button = 1 \<or> button = 5 then switch_selection 1 st1 else Inr st1) of
             Inl e \<Rightarrow> Inl e
           | Inr st2 \<Rightarrow>
               (case (if button = 2 then choose_what_to_display True st2 else Inr st2) of
                  Inl e \<Rightarrow> Inl e
                | Inr st3 \<Rightarrow> Inr (if button = 3 then apply_py run False st3 else st3))))"

text \<open>The last block of \<^verbatim>\<open>xrandr\<close> (\<^verbatim>\<open># fallback detection\<close>).\<close>

definition fallback_detection ::
  "(event list \<Rightarrow> string \<Rightarrow> int) \<Rightarrow> i3s_config \<Rightarrow> response \<times> py3status \<Rightarrow>
   py_error + (response \<times> py3status)" where
  "fallback_detection run cfg rs =
     (case rs of (resp, st) \<Rightarrow>
        if \<not> in_available (active_layout st) st then
          (let resp1 = resp\<lparr>color := Some (color_degraded cfg)\<rparr> in
           if fallback st then
             (case fallback_to_available_output run st of
                Inl e \<Rightarrow> Inl e
              | Inr st1 \<Rightarrow> Inr (resp1, st1))
           else Inr (resp1, st))
        else Inr (resp, st))"

text \<open>\<^verbatim>\<open>xrandr\<close>, one refresh cycle; \<open>now\<close> is \<^verbatim>\<open>time()\<close>, \<open>lines\<close> the output of the
  detection command.\<close>

definition xrandr ::
  "(string list \<Rightarrow> string list) \<Rightarrow> (event list \<Rightarrow> string \<Rightarrow> int) \<Rightarrow> int \<Rightarrow> string list \<Rightarrow>
   i3s_config \<Rightarrow> py3status \<Rightarrow> py_error + (response \<times> py3status)" where
  "xrandr set_iter run now lines cfg st =
     (case get_layout lines st of (lay, st0) \<Rightarrow>
      (let st1 = set_available_combinations set_iter (st0\<lparr>layout := lay\<rparr>) in
       case choose_what_to_display False st1 of
         Inl e \<Rightarrow> Inl e
       | Inr st2 \<Rightarrow>
           (case (if fixed_width st2
                  then (case center (displayed st2) st2 of
                          Inl e \<Rightarrow> Inl e | Inr t \<Rightarrow> Inr (Some t))
                  else Inr (displayed st2)) of
              Inl e \<Rightarrow> Inl e
            | Inr text \<Rightarrow>
                (let resp = \<lparr> cached_until = now + cache_timeout st2,
                              full_text = text, color = None \<rparr>;
                     resp1 = (if displayed st2 = active_layout st2
                              then resp\<lparr>color := Some (color_good cfg)\<rparr>
                              else if \<not> in_available (displayed st2) st2
                              then resp\<lparr>color := Some (color_bad cfg)\<rparr>
                              else resp)
                 in case (if force_on_start st2 \<noteq> None
                          then force_force_on_start run (st2\<lparr>trace := trace st2 @ [Sleep 1]\<rparr>)
                          else Inr st2) of
                      Inl e \<Rightarrow> Inl e
                    | Inr st3 \<Rightarrow> fallback_detection run cfg (resp1, st3)))))"

section \<open>Vocabulary of the statements\<close>

text \<open>Sequencing of two fallible steps, and \<open>n\<close> user rotations in a row
  (\<^verbatim>\<open>on_click\<close> with button 1 or 5 is \<open>switch_selection 1\<close>, button 4 is
  \<open>switch_selection (- 1)\<close>).\<close>

definition then_do :: "py_error + 'a \<Rightarrow> ('a \<Rightarrow> py_error + 'b) \<Rightarrow> py_error + 'b" where
  "then_do r f = (case r of Inl e \<Rightarrow> Inl e | Inr x \<Rightarrow> f x)"

fun switch_times :: "nat \<Rightarrow> int \<Rightarrow> py3status \<Rightarrow> py_error + py3status" where
  "switch_times 0 direction st = Inr st"
| "switch_times (Suc n) direction st = then_do (switch_selection direction st) (switch_times n direction)"

text \<open>What \<^verbatim>\<open>_apply\<close> is about to send to the layout command: nothing when the two guards
  at its head return early, else the combination and mode found for \<open>displayed\<close>.\<close>

definition apply_target :: "bool \<Rightarrow> py3status \<Rightarrow> (string list \<times> comb_mode option) option" where
  "apply_target force st =
     (if displayed st = active_layout st \<and> \<not> force then None
      else (case displayed st of None \<Rightarrow> None | Some d \<Rightarrow> combinations_map st d))"

text \<open>The events of \<^verbatim>\<open>_apply\<close> and \<^verbatim>\<open>_apply_workspaces\<close> by name.\<close>

definition apply_logged :: "string \<Rightarrow> int \<Rightarrow> event" where
  \<open>apply_logged cmd code = Syslog (''command "'' @ cmd @ ''" exit code '' @ show_int code)\<close>

definition switch_to :: "string \<Rightarrow> event" where
  \<open>switch_to workspace = Call (''i3-msg workspace "'' @ workspace @ ''"'')\<close>

definition move_to :: "string \<Rightarrow> event" where
  \<open>move_to output = Call (''i3-msg move workspace to output "'' @ output @ ''"'')\<close>

definition moved :: "string \<Rightarrow> string \<Rightarrow> event" where
  "moved workspace output = Syslog (''moved workspace '' @ workspace @ '' to output '' @ output)"


text \<open>The per-output hints, as functions of the output: the attribute if it is set, else the
  default of the \<^verbatim>\<open>getattr\<close> call.\<close>

definition pos_hint :: "(string \<rightharpoonup> string) \<Rightarrow> string \<Rightarrow> string" where
  "pos_hint a output = (case a (output @ ''_pos'') of None \<Rightarrow> ''0x0'' | Some v \<Rightarrow> v)"

definition workspaces_hint :: "(string \<rightharpoonup> string) \<Rightarrow> string \<Rightarrow> string" where
  "workspaces_hint a output = (case a (output @ ''_workspaces'') of None \<Rightarrow> [] | Some v \<Rightarrow> v)"


definition workspace_events ::
  "(string \<Rightarrow> string) \<Rightarrow> string list \<Rightarrow> comb_mode option \<Rightarrow> event list" where
  "workspace_events hint combination m =
     (if m = Some Extend \<and> 2 \<le> length combination then
        Sleep 3 #
        concat (map (\<lambda>output.
          concat (map (\<lambda>workspace. [switch_to workspace, move_to output, moved workspace output])
                    (filter (\<lambda>workspace. workspace \<noteq> []) (py_split CHR '','' (hint output)))))
          combination)
      else [])"

text \<open>The command synthesizer as the specification words it. A directive is what one output
  is told; \<open>directive_for\<close> decides it from the outputs listed before it: off when the
  output is not in the combination; in clone mode, derived from the member of the
  combination listed last before it, if there is one; else the relational form when the
  position hint holds one of the four keywords, and the absolute form otherwise.\<close>

datatype directive =
    Off string
  | Same_as string string
  | Relative string string
  | Absolute string string

definition render :: "directive \<Rightarrow> string" where
  "render d =
     (case d of
        Off output \<Rightarrow> '' --output '' @ output @ '' --off''
      | Same_as output prev \<Rightarrow> '' --output '' @ output @ '' --auto --same-as '' @ prev
      | Relative output pos \<Rightarrow> '' --output '' @ output @ '' --auto --'' @ pos @ '' --rotate normal''
      | Absolute output pos \<Rightarrow>
          '' --output '' @ output @ '' --auto --pos '' @ pos @ '' --rotate normal'')"

definition directive_output :: "directive \<Rightarrow> string" where
  "directive_output d =
     (case d of Off output \<Rightarrow> output | Same_as output _ \<Rightarrow> output
      | Relative output _ \<Rightarrow> output | Absolute output _ \<Rightarrow> output)"

definition relational :: "string \<Rightarrow> bool" where
  "relational pos =
     (str_in ''above'' pos \<or> str_in ''below'' pos \<or> str_in ''left-of'' pos \<or> str_in ''right-of'' pos)"

definition directive_for ::
  "(string \<Rightarrow> string) \<Rightarrow> string list \<Rightarrow> comb_mode option \<Rightarrow> string list \<Rightarrow> string \<Rightarrow> directive" where
  "directive_for hint combination m earlier output =
     (if output \<notin> set combination then Off output
      else if m = Some Clone \<and> filter (\<lambda>p. p \<in> set combination) earlier \<noteq> []
      then Same_as output (last (filter (\<lambda>p. p \<in> set combination) earlier))
      else if relational (hint output) then Relative output (hint output)
      else Absolute output (hint output))"

definition directives ::
  "(string \<Rightarrow> string) \<Rightarrow> string list \<Rightarrow> comb_mode option \<Rightarrow> string list \<Rightarrow> directive list" where
  "directives hint combination m outputs =
     map (\<lambda>i. directive_for hint combination m (take i outputs) (outputs ! i))
       [0 ..< length outputs]"

definition last_member :: "string list \<Rightarrow> string list \<Rightarrow> string option" where
  "last_member combination earlier =
     (if filter (\<lambda>p. p \<in> set combination) earlier = [] then None
      else Some (last (filter (\<lambda>p. p \<in> set combination) earlier)))"

text \<open>The connected outputs in detection order, and the pairs of combination and mode in the
  order in which the three nested loops of \<^verbatim>\<open>_set_available_combinations\<close> visit them.\<close>

definition connected_outputs :: "py3status \<Rightarrow> string list" where
  "connected_outputs st = map fst (connected (layout st))"

definition generated :: "string list \<Rightarrow> (string list \<times> comb_mode) list" where
  "generated outs =
     concat (map (\<lambda>r. concat (map (\<lambda>comb. if comb \<noteq> [] then [(comb, Clone), (comb, Extend)] else [])
                                 (combinations outs r)))
               [0 ..< length outs + 1])"

text \<open>The display string of a pair, and what the lookup map stores under it: no mode for a
  single output.\<close>

definition display_string :: "py3status \<Rightarrow> string list \<times> comb_mode \<Rightarrow> string" where
  "display_string st p = fst (get_string_and_set_width (fst p) (Some (snd p)) st)"

definition entry :: "string list \<times> comb_mode \<Rightarrow> string list \<times> comb_mode option" where
  "entry p = (fst p, if length (fst p) = 1 then None else Some (snd p))"



text \<open>The first two statements of \<^verbatim>\<open>xrandr\<close>: detection, then generation.\<close>

definition detect :: "(string list \<Rightarrow> string list) \<Rightarrow> string list \<Rightarrow> py3status \<Rightarrow> py3status" where
  "detect set_iter lines st =
     (case get_layout lines st of (lay, st0) \<Rightarrow>
        set_available_combinations set_iter (st0\<lparr>layout := lay\<rparr>))"


section \<open>Example inputs and instances\<close>

text \<open>A laptop panel and a monitor connected, a third port free; the panel is the active
  layout. \<open>ex_browse\<close> is the same instance after the user has scrolled to the
  extended layout.\<close>

definition ex_info :: "string \<Rightarrow> output_info" where
  "ex_info st = \<lparr> infos = ''(normal left inverted right x axis y axis)'', mode = None, state = st \<rparr>"

definition ex_cfg :: i3s_config where
  "ex_cfg = \<lparr> color_bad = ''#FF0000'', color_degraded = ''#FFFF00'', color_good = ''#00FF00'' \<rparr>"

definition ex_state :: py3status where
  "ex_state = init \<lparr>
     attrs := [''DP1_pos'' \<mapsto> ''left-of eDP1'', ''DP1_workspaces'' \<mapsto> ''1,2''],
     active_comb := Some [''eDP1''], active_layout := Some ''eDP1'',
     displayed := Some ''eDP1'', max_width := 8,
     layout := \<lparr> connected = [(''eDP1'', ex_info ''connected''), (''DP1'', ex_info ''connected'')],
                  disconnected = [(''HDMI1'', ex_info ''disconnected'')] \<rparr>,
     available_combinations := [''eDP1'', ''DP1'', ''eDP1=DP1'', ''eDP1+DP1''],
     combinations_map := [''eDP1'' \<mapsto> ([''eDP1''], None), ''DP1'' \<mapsto> ([''DP1''], None),
        ''eDP1=DP1'' \<mapsto> ([''eDP1'', ''DP1''], Some Clone),
        ''eDP1+DP1'' \<mapsto> ([''eDP1'', ''DP1''], Some Extend)] \<rparr>"

definition ex_browse :: py3status where
  "ex_browse = ex_state\<lparr>displayed := Some ''eDP1+DP1''\<rparr>"

definition run_ok :: "event list \<Rightarrow> string \<Rightarrow> int" where "run_ok tr cmd = 0"

definition run_fail :: "event list \<Rightarrow> string \<Rightarrow> int" where "run_fail tr cmd = 1"


text \<open>The instance after a first cycle in which one output is connected and none is active,
  with \<^verbatim>\<open>fixed_width\<close> off: nothing is displayed yet.\<close>

definition ex_unset :: py3status where
  \<open>ex_unset = init \<lparr> fixed_width := False,
     active_comb := Some [], active_layout := Some [], max_width := 4,
     layout := \<lparr> connected = [(''eDP1'', ex_info ''connected'')], disconnected = [] \<rparr>,
     available_combinations := [''eDP1''],
     combinations_map := [''eDP1'' \<mapsto> ([''eDP1''], None)],
     trace := [Popen ''xrandr'', Syslog ''xrandr error="displayed combination is not available"''] \<rparr>\<close>

text \<open>Outputs of the detection command: two outputs connected and none active; the panel
  active and a free port; nothing connected; and a connector line whose name is empty.\<close>

definition ex_lines :: "string list" where
  "ex_lines =
     [''Screen 0: minimum 8 x 8, current 1920 x 1080, maximum 32767 x 32767'' @ [CHR 0x0A],
      ''eDP1 connected (normal left inverted right x axis y axis)'' @ [CHR 0x0A],
      ''   1920x1080     60.00 +'' @ [CHR 0x0A],
      ''DP1 connected (normal left inverted right x axis y axis)'' @ [CHR 0x0A],
      ''   2560x1440     59.95 +'' @ [CHR 0x0A]]"

definition ex_panel_lines :: "string list" where
  "ex_panel_lines =
     [''eDP1 connected 1920x1080+0+0 (normal left inverted right x axis y axis) 310mm x 170mm'' @ [CHR 0x0A],
      ''   1920x1080     60.00*+'' @ [CHR 0x0A],
      ''HDMI1 disconnected (normal left inverted right x axis y axis)'' @ [CHR 0x0A]]"

definition ex_unplugged_lines :: "string list" where
  "ex_unplugged_lines =
     [''eDP1 disconnected (normal left inverted right x axis y axis)'' @ [CHR 0x0A],
      ''HDMI1 disconnected (normal left inverted right x axis y axis)'' @ [CHR 0x0A]]"


text \<open>The instance after detection and generation on \<open>ex_lines\<close>, and the instance after a
  whole first cycle on \<open>ex_panel_lines\<close>.\<close>

definition ex_detected :: py3status where
  "ex_detected = init \<lparr> active_comb := Some [], active_layout := Some [], max_width := 8,
     layout := \<lparr> connected = [(''eDP1'', ex_info ''connected''), (''DP1'', ex_info ''connected'')],
                  disconnected = [] \<rparr>,
     available_combinations := [''eDP1'', ''DP1'', ''eDP1=DP1'', ''eDP1+DP1''],
     combinations_map := [''eDP1'' \<mapsto> ([''eDP1''], None), ''DP1'' \<mapsto> ([''DP1''], None),
        ''eDP1=DP1'' \<mapsto> ([''eDP1'', ''DP1''], Some Clone),
        ''eDP1+DP1'' \<mapsto> ([''eDP1'', ''DP1''], Some Extend)],
     trace := [Popen ''xrandr''] \<rparr>"

definition ex_panel :: py3status where
  "ex_panel = init \<lparr>
     active_comb := Some [''eDP1''], active_layout := Some ''eDP1'',
     displayed := Some ''eDP1'', max_width := 4,
     layout := \<lparr> connected = [(''eDP1'',
                     \<lparr> infos = ''(normal left inverted right x axis y axis) 310mm x 170mm'',
                       mode = Some ''1920x1080+0+0'', state = ''connected'' \<rparr>)],
                  disconnected = [(''HDMI1'', ex_info ''disconnected'')] \<rparr>,
     available_combinations := [''eDP1''],
     combinations_map := [''eDP1'' \<mapsto> ([''eDP1''], None)],
     trace := [Popen ''xrandr''] \<rparr>"





section \<open>Apply and the workspace planner\<close>

lemma move_workspace_fold:
  "fold (move_workspace out) ws st =
     st\<lparr>trace := trace st @
        concat (map (\<lambda>w. [switch_to w, move_to out, moved w out]) (filter (\<lambda>w. w \<noteq> []) ws))\<rparr>"
  by (induction ws arbitrary: st)
     (simp_all add: move_workspace_def switch_to_def move_to_def moved_def)

lemma output_fold:
  "fold (\<lambda>out st. fold (move_workspace out)
                  (py_split CHR '','' (getattr st (out @ ''_workspaces'') [])) st) os st =
   st\<lparr>trace := trace st @
      concat (map (\<lambda>out. concat (map (\<lambda>w. [switch_to w, move_to out, moved w out])
        (filter (\<lambda>w. w \<noteq> []) (py_split CHR '','' (workspaces_hint (attrs st) out))))) os)\<rparr>"
  by (induction os arbitrary: st) (simp_all add: move_workspace_fold getattr_def workspaces_hint_def)

lemma apply_workspaces_eq:
  "apply_workspaces combination m st =
     st\<lparr>trace := trace st @ workspace_events (workspaces_hint (attrs st)) combination m\<rparr>"
proof -
  have "(1 < length combination) = (2 \<le> length combination)" by arith
  then show ?thesis
    by (simp add: workspace_events_def apply_workspaces_def output_fold)
qed



lemma apply_py_None: "apply_target force st = None \<Longrightarrow> apply_py run force st = st"
  by (simp add: apply_py_def apply_target_def split: if_splits option.splits)

lemma apply_py_Some:
  assumes "apply_target force st = Some (combination, m)"
  shows "apply_py run force st =
     (if run (trace st) (apply_command st combination m) = 0
      then st\<lparr>active_comb := Some combination, active_layout := displayed st, active_mode := m\<rparr>
      else st)
     \<lparr>trace := trace st @
         [Call (apply_command st combination m),
          apply_logged (apply_command st combination m)
            (run (trace st) (apply_command st combination m))]
         @ workspace_events (workspaces_hint (attrs st)) combination m\<rparr>"
proof -
  from assms obtain d where d: "displayed st = Some d" "combinations_map st d = Some (combination, m)"
    and g: "\<not> (displayed st = active_layout st \<and> \<not> force)"
    by (auto simp add: apply_target_def split: if_splits option.splits)
  from g have guard: "(displayed st = active_layout st \<and> \<not> force) = False"
    by simp
  show ?thesis
    unfolding apply_py_def guard
    by (simp add: d apply_workspaces_eq Let_def apply_logged_def)
qed

lemmas ex_defs = ex_browse_def ex_state_def init_def ex_info_def run_ok_def run_fail_def


text \<open>Claim C4. In every state where \<open>displayed\<close> equals the active layout string, Apply
  with force = false leaves the whole instance as it is, the history of external effects
  included, so no command is run; a second such call in a row does nothing either. An Apply
  whose command succeeded leaves \<open>displayed\<close> equal to the active layout, so that a
  non-forced Apply right after it does nothing.\<close>

theorem apply_noop:
  "(displayed st = active_layout st \<longrightarrow>
      apply_py run False st = st \<and>
      trace (apply_py run False st) = trace st \<and>
      apply_py run False (apply_py run False st) = st) \<and>
   (\<forall>combination m. apply_target force st = Some (combination, m) \<and>
        run (trace st) (apply_command st combination m) = 0 \<longrightarrow>
      displayed (apply_py run force st) = active_layout (apply_py run force st) \<and>
      apply_py run' False (apply_py run force st) = apply_py run force st)"
proof -
  have a: "displayed s = active_layout s \<Longrightarrow> apply_py r False s = s" for r s
    by (simp add: apply_py_def)
  have b: "displayed (apply_py run force st) = active_layout (apply_py run force st)"
    if t: "apply_target force st = Some (combination, m)"
      and ok: "run (trace st) (apply_command st combination m) = 0" for combination m
    using apply_py_Some [OF t, of run] ok by simp
  show ?thesis
    using a b by simp
qed

text \<open>Claim C4 at the example instance, whose displayed layout is the active one, and at the
  instance with the extended layout selected, applied with success and then once more.\<close>

theorem apply_noop_witness:
  "displayed ex_state = active_layout ex_state \<and>
   apply_py run_fail False ex_state = ex_state \<and>
   trace (apply_py run_fail False ex_state) = trace ex_state \<and>
   apply_py run_fail False (apply_py run_fail False ex_state) = ex_state \<and>
   apply_target False ex_browse = Some ([''eDP1'', ''DP1''], Some Extend) \<and>
   run_ok (trace ex_browse) (apply_command ex_browse [''eDP1'', ''DP1''] (Some Extend)) = 0 \<and>
   apply_py run_fail False (apply_py run_ok False ex_browse) = apply_py run_ok False ex_browse"
proof -
  have t: "apply_target False ex_browse = Some ([''eDP1'', ''DP1''], Some Extend)"
    by (simp add: apply_target_def ex_defs)
  have ok: "run_ok (trace ex_browse) (apply_command ex_browse [''eDP1'', ''DP1''] (Some Extend)) = 0"
    by (simp add: run_ok_def)
  have d: "displayed ex_state = active_layout ex_state"
    by (simp add: ex_defs)
  from apply_noop [where st = ex_state and run = run_fail]
  have one: "apply_py run_fail False ex_state = ex_state \<and>
      trace (apply_py run_fail False ex_state) = trace ex_state \<and>
      apply_py run_fail False (apply_py run_fail False ex_state) = ex_state"
    using d by blast
  from apply_noop [where st = ex_browse and run = run_ok and force = False and run' = run_fail]
  have two: "apply_py run_fail False (apply_py run_ok False ex_browse) = apply_py run_ok False ex_browse"
    using t ok by blast
  show ?thesis
    using t ok d one two by blast
qed

text \<open>Claim C3. Whenever Apply runs the layout command and the command reports a non-zero
  status, \<open>active_comb\<close>, \<open>active_layout\<close>, \<open>active_mode\<close> and \<open>displayed\<close> keep
  their values; when it reports 0, the active layout becomes \<open>displayed\<close>, with its
  combination and mode; and the active fields change only in that case.\<close>

theorem apply_failure:
  "(\<forall>combination m. apply_target force st = Some (combination, m) \<and>
        run (trace st) (apply_command st combination m) \<noteq> 0 \<longrightarrow>
      active_comb (apply_py run force st) = active_comb st \<and>
      active_layout (apply_py run force st) = active_layout st \<and>
      active_mode (apply_py run force st) = active_mode st \<and>
      displayed (apply_py run force st) = displayed st) \<and>
   (\<forall>combination m. apply_target force st = Some (combination, m) \<and>
        run (trace st) (apply_command st combination m) = 0 \<longrightarrow>
      active_comb (apply_py run force st) = Some combination \<and>
      active_layout (apply_py run force st) = displayed st \<and>
      active_mode (apply_py run force st) = m \<and>
      displayed (apply_py run force st) = displayed st) \<and>
   (active_comb (apply_py run force st) \<noteq> active_comb st \<or>
    active_layout (apply_py run force st) \<noteq> active_layout st \<or>
    active_mode (apply_py run force st) \<noteq> active_mode st \<longrightarrow>
      (\<exists>combination m. apply_target force st = Some (combination, m) \<and>
         run (trace st) (apply_command st combination m) = 0))"
proof (cases "apply_target force st")
  case None
  then show ?thesis by (simp add: apply_py_None)
next
  case (Some t)
  obtain combination m where t: "t = (combination, m)" by (cases t)
  show ?thesis
    unfolding Some t by (simp add: apply_py_Some [OF Some [unfolded t]])
qed

text \<open>Claim C3 at the example instance with the extended layout selected: a failing command
  leaves the panel active, a successful one makes the extended layout active.\<close>

theorem apply_failure_witness:
  "apply_target False ex_browse = Some ([''eDP1'', ''DP1''], Some Extend) \<and>
   run_fail (trace ex_browse)
     (apply_command ex_browse [''eDP1'', ''DP1''] (Some Extend)) \<noteq> 0 \<and>
   active_layout (apply_py run_fail False ex_browse) = Some ''eDP1'' \<and>
   active_comb (apply_py run_fail False ex_browse) = Some [''eDP1''] \<and>
   active_mode (apply_py run_fail False ex_browse) = Some Extend \<and>
   displayed (apply_py run_fail False ex_browse) = Some ''eDP1+DP1'' \<and>
   active_layout (apply_py run_ok False ex_browse) = Some ''eDP1+DP1''"
proof -
  have t: "apply_target False ex_browse = Some ([''eDP1'', ''DP1''], Some Extend)"
    by (simp add: apply_target_def ex_defs)
  show ?thesis
    using apply_failure [of False ex_browse run_fail]
          apply_failure [of False ex_browse run_ok]
    unfolding t by (simp add: ex_defs)
qed





section \<open>Command synthesizer\<close>

lemma apply_output_directive:
  "prev = last_member c earlier \<Longrightarrow>
   apply_output st c m x (cmd, prev) =
     (cmd @ render (directive_for (pos_hint (attrs st)) c m earlier x), last_member c (earlier @ [x]))"
  by (auto simp add: apply_output_def directive_for_def render_def relational_def pos_hint_def
        getattr_def last_member_def Let_def split: option.splits)

lemma fold_apply_output:
  "prev = last_member c earlier \<Longrightarrow>
   fst (fold (apply_output st c m) rest (cmd, prev)) =
     cmd @ concat (map (\<lambda>i. render (directive_for (pos_hint (attrs st)) c m (earlier @ take i rest) (rest ! i)))
                     [0 ..< length rest])"
proof (induction rest arbitrary: prev earlier cmd)
  case Nil
  then show ?case by simp
next
  case (Cons x rest)
  have step: "apply_output st c m x (cmd, prev) =
     (cmd @ render (directive_for (pos_hint (attrs st)) c m earlier x), last_member c (earlier @ [x]))"
    by (rule apply_output_directive [OF Cons.prems])
  have idx: "[0 ..< length (x # rest)] = 0 # map Suc [0 ..< length rest]"
    by (simp add: upt_conv_Cons map_Suc_upt del: upt_Suc)
  show ?case
    unfolding idx
    by (simp add: step Cons.IH [OF refl] comp_def)
qed

text \<open>Claim C5. The command that Apply builds is \<^verbatim>\<open>xrandr\<close> followed by one directive block
  per output of the full list (the connected outputs, then the disconnected ones, in
  detection order), in that order. The block of an output is decided by \<open>directive_for\<close>:
  off for an output outside the combination; in clone mode, every member after the first
  one processed is derived from the member processed last before it; every other member
  gets the relational form when its position hint (default "0x0") holds above, below,
  left-of or right-of, and the absolute form otherwise.\<close>

theorem command_directives:
  "apply_command st combination m =
     ''xrandr'' @ concat (map render (directives (pos_hint (attrs st)) combination m (all_outputs st))) \<and>
   map directive_output (directives (pos_hint (attrs st)) combination m (all_outputs st)) = all_outputs st"
proof -
  have "last_member combination [] = None" by (simp add: last_member_def)
  then have "fst (fold (apply_output st combination m) (all_outputs st) (''xrandr'', None)) =
     ''xrandr'' @ concat (map (\<lambda>i. render (directive_for (pos_hint (attrs st)) combination m
         ([] @ take i (all_outputs st)) (all_outputs st ! i))) [0 ..< length (all_outputs st)])"
    by (intro fold_apply_output) simp
  then have a: "apply_command st combination m =
     ''xrandr'' @ concat (map render (directives (pos_hint (attrs st)) combination m (all_outputs st)))"
    by (simp add: apply_command_def directives_def comp_def)
  have "directive_output (directive_for hint combination m earlier x) = x" for hint earlier x
    by (simp add: directive_for_def directive_output_def)
  then have b: "map directive_output (directives (pos_hint (attrs st)) combination m (all_outputs st)) = all_outputs st"
    by (simp add: directives_def comp_def map_nth)
  from a b show ?thesis by simp
qed

text \<open>Claim C5 at the example instance: the command and the directives for the clone and the
  extended layout of its two connected outputs.\<close>

theorem command_directives_witness:
  "apply_command ex_state [''eDP1'', ''DP1''] (Some Clone) =
     ''xrandr --output eDP1 --auto --pos 0x0 --rotate normal --output DP1 --auto --same-as eDP1 --output HDMI1 --off'' \<and>
   directives (pos_hint (attrs ex_state)) [''eDP1'', ''DP1''] (Some Clone) (all_outputs ex_state) =
     [Absolute ''eDP1'' ''0x0'', Same_as ''DP1'' ''eDP1'', Off ''HDMI1''] \<and>
   directives (pos_hint (attrs ex_state)) [''eDP1'', ''DP1''] (Some Extend) (all_outputs ex_state) =
     [Absolute ''eDP1'' ''0x0'', Relative ''DP1'' ''left-of eDP1'', Off ''HDMI1'']"
proof -
  have o: "all_outputs ex_state = [''eDP1'', ''DP1'', ''HDMI1'']"
    by (simp add: all_outputs_def ex_state_def init_def)
  have h: "pos_hint (attrs ex_state) ''eDP1'' = ''0x0''"
          "pos_hint (attrs ex_state) ''DP1'' = ''left-of eDP1''"
    by (simp_all add: pos_hint_def ex_state_def init_def)
  have d1: "directives (pos_hint (attrs ex_state)) [''eDP1'', ''DP1''] (Some Clone) (all_outputs ex_state) =
     [Absolute ''eDP1'' ''0x0'', Same_as ''DP1'' ''eDP1'', Off ''HDMI1'']"
    unfolding o
    by (simp add: directives_def directive_for_def relational_def h upt_rec numeral_3_eq_3)
  have d2: "directives (pos_hint (attrs ex_state)) [''eDP1'', ''DP1''] (Some Extend) (all_outputs ex_state) =
     [Absolute ''eDP1'' ''0x0'', Relative ''DP1'' ''left-of eDP1'', Off ''HDMI1'']"
    unfolding o
    by (simp add: directives_def directive_for_def relational_def h upt_rec numeral_3_eq_3)
  from command_directives [of ex_state "[''eDP1'', ''DP1'']" "Some Clone"]
  have "apply_command ex_state [''eDP1'', ''DP1''] (Some Clone) =
     ''xrandr'' @ concat (map render
        (directives (pos_hint (attrs ex_state)) [''eDP1'', ''DP1''] (Some Clone) (all_outputs ex_state)))"
    by blast
  then have c: "apply_command ex_state [''eDP1'', ''DP1''] (Some Clone) =
     ''xrandr --output eDP1 --auto --pos 0x0 --rotate normal --output DP1 --auto --same-as eDP1 --output HDMI1 --off''"
    unfolding d1 by (simp add: render_def)
  from c d1 d2 show ?thesis by blast
qed

section \<open>Rotation\<close>

lemma rotate_right1_rotate1 [simp]: "rotate_right1 (rotate1 xs) = xs"
  by (cases xs) (simp_all add: rotate_right1_def)

lemma rotate1_rotate_right1 [simp]: "rotate1 (rotate_right1 xs) = xs"
  by (cases xs rule: rev_cases) (simp_all add: rotate_right1_def)

lemma rotate_right1_Nil_iff [simp]: "rotate_right1 xs = [] \<longleftrightarrow> xs = []"
  by (simp add: rotate_right1_def)

lemma funpow_rotate_right1_Nil_iff [simp]: "(rotate_right1 ^^ n) xs = [] \<longleftrightarrow> xs = []"
  by (induction n) simp_all

lemma funpow_rotate1_Nil_iff [simp]: "(rotate1 ^^ n) xs = [] \<longleftrightarrow> xs = []"
  by (induction n) simp_all

lemma deque_rotate_Nil_iff [simp]: "deque_rotate d xs = [] \<longleftrightarrow> xs = []"
  by (simp add: deque_rotate_def)

lemma switch_selection_eq:
  "available_combinations st \<noteq> [] \<Longrightarrow>
   switch_selection d st =
     Inr (st\<lparr>available_combinations := deque_rotate d (available_combinations st),
             displayed := Some (hd (deque_rotate d (available_combinations st)))\<rparr>)"
  by (cases "deque_rotate d (available_combinations st)")
     (simp_all add: switch_selection_def deque_first_def Let_def)

lemma forward_times:
  "available_combinations st \<noteq> [] \<Longrightarrow>
   switch_times (Suc n) 1 st =
     Inr (st\<lparr>available_combinations := (rotate_right1 ^^ Suc n) (available_combinations st),
             displayed := Some (hd ((rotate_right1 ^^ Suc n) (available_combinations st)))\<rparr>)"
proof (induction n arbitrary: st)
  case 0
  then show ?case by (simp add: switch_selection_eq then_do_def deque_rotate_def)
next
  case (Suc n)
  let ?st1 = "st\<lparr>available_combinations := deque_rotate 1 (available_combinations st),
             displayed := Some (hd (deque_rotate 1 (available_combinations st)))\<rparr>"
  have ne: "available_combinations ?st1 \<noteq> []" using Suc.prems by simp
  have "switch_selection 1 st = Inr ?st1"
    using Suc.prems by (rule switch_selection_eq)
  then have "switch_times (Suc (Suc n)) 1 st = switch_times (Suc n) 1 ?st1"
    by (simp only: switch_times.simps(2) [of "Suc n"] then_do_def sum.case)
  also have "\<dots> = Inr (?st1\<lparr>available_combinations := (rotate_right1 ^^ Suc n) (available_combinations ?st1),
             displayed := Some (hd ((rotate_right1 ^^ Suc n) (available_combinations ?st1)))\<rparr>)"
    by (rule Suc.IH [OF ne])
  finally show ?case
    by (simp add: deque_rotate_def funpow_swap1)
qed

lemma backward_times:
  "available_combinations st \<noteq> [] \<Longrightarrow>
   switch_times (Suc n) (- 1) st =
     Inr (st\<lparr>available_combinations := (rotate1 ^^ Suc n) (available_combinations st),
             displayed := Some (hd ((rotate1 ^^ Suc n) (available_combinations st)))\<rparr>)"
proof (induction n arbitrary: st)
  case 0
  then show ?case by (simp add: switch_selection_eq then_do_def deque_rotate_def)
next
  case (Suc n)
  let ?st1 = "st\<lparr>available_combinations := deque_rotate (- 1) (available_combinations st),
             displayed := Some (hd (deque_rotate (- 1) (available_combinations st)))\<rparr>"
  have ne: "available_combinations ?st1 \<noteq> []" using Suc.prems by simp
  have "switch_selection (- 1) st = Inr ?st1"
    using Suc.prems by (rule switch_selection_eq)
  then have "switch_times (Suc (Suc n)) (- 1) st = switch_times (Suc n) (- 1) ?st1"
    by (simp only: switch_times.simps(2) [of "Suc n"] then_do_def sum.case)
  also have "\<dots> = Inr (?st1\<lparr>available_combinations := (rotate1 ^^ Suc n) (available_combinations ?st1),
             displayed := Some (hd ((rotate1 ^^ Suc n) (available_combinations ?st1)))\<rparr>)"
    by (rule Suc.IH [OF ne])
  finally show ?case
    by (simp add: deque_rotate_def funpow_swap1)
qed

lemma undo_rotation: "(rotate1 ^^ n) ((rotate_right1 ^^ n) xs) = xs"
  by (induction n arbitrary: xs) (simp_all add: funpow_swap1)

text \<open>Claim C6, as amended. On a non-empty ring and for \<open>n \<ge> 1\<close>, \<open>n\<close> forward rotations
  followed by \<open>n\<close> backward rotations succeed, restore the ring and every other field, and
  leave \<open>displayed\<close> at the head of the ring; \<open>displayed\<close> is therefore back at its
  original value whenever it was the head of the ring before.\<close>

theorem rotation_round_trip:
  assumes "available_combinations st \<noteq> []" and "1 \<le> n"
  shows "then_do (switch_times n 1 st) (switch_times n (- 1)) =
           Inr (st\<lparr>displayed := Some (hd (available_combinations st))\<rparr>) \<and>
         (displayed st = Some (hd (available_combinations st)) \<longrightarrow>
            then_do (switch_times n 1 st) (switch_times n (- 1)) = Inr st)"
proof -
  from assms(2) obtain k where n: "n = Suc k" by (cases n) simp_all
  have ne: "(rotate_right1 ^^ Suc k) (available_combinations st) \<noteq> []"
    using assms(1) by (simp only: funpow_rotate_right1_Nil_iff not_False_eq_True)
  have "then_do (switch_times n 1 st) (switch_times n (- 1)) =
           Inr (st\<lparr>displayed := Some (hd (available_combinations st))\<rparr>)"
    unfolding n forward_times [OF assms(1)] then_do_def sum.case
    using ne undo_rotation [of "Suc k" "available_combinations st"]
    by (subst backward_times) (simp_all del: funpow.simps)
  moreover have "displayed st = Some (hd (available_combinations st)) \<Longrightarrow>
     st\<lparr>displayed := Some (hd (available_combinations st))\<rparr> = st"
    by (cases st) simp
  ultimately show ?thesis by simp
qed

text \<open>The instance \<open>ex_unset\<close> is the result of a first refresh cycle.\<close>

lemma ex_unset_reachable:
  "xrandr (\<lambda>xs. xs) run_ok 0 [''eDP1 connected (normal left inverted right x axis y axis)'' @ [CHR 0x0A]]
      ex_cfg (init\<lparr>fixed_width := False\<rparr>) =
   Inr (\<lparr> cached_until = 10, full_text = None, color = Some ''#FFFF00'' \<rparr>, ex_unset)"
  by (simp add: xrandr_def get_layout_def get_layout_line_def parse_line_def py_strip_def py_rstrip_def
        get_string_and_set_width_def separator_def format_opt_def set_available_combinations_def
        add_combination_def set_add_def choose_what_to_display_def deque_first_def deque_rotate_def
        rotate_right1_def in_available_def fallback_detection_def fallback_to_available_output_def
        ex_unset_def init_def ex_cfg_def ex_info_def Let_def numeral_2_eq_2)

text \<open>Claim C6 as stated fails on that instance: nothing is displayed before one rotation
  forward and one backward, and the head of the ring is displayed after them.\<close>

theorem rotation_counterexample:
  "available_combinations ex_unset \<noteq> [] \<and> displayed ex_unset = None \<and>
   map_sum id displayed (then_do (switch_times 1 1 ex_unset) (switch_times 1 (- 1))) = Inr (Some ''eDP1'')"
  by (simp add: ex_unset_def init_def then_do_def switch_selection_def deque_first_def
        deque_rotate_def rotate_right1_def Let_def)

text \<open>Claim C6, as amended, at the example instance, two rotations each way.\<close>

theorem rotation_round_trip_witness:
  "available_combinations ex_state \<noteq> [] \<and> (1::nat) \<le> 2 \<and>
   displayed ex_state = Some (hd (available_combinations ex_state)) \<and>
   map_sum id available_combinations (switch_times 2 1 ex_state) =
     Inr [''eDP1=DP1'', ''eDP1+DP1'', ''eDP1'', ''DP1''] \<and>
   then_do (switch_times 2 1 ex_state) (switch_times 2 (- 1)) = Inr ex_state"
proof -
  have ne: "available_combinations ex_state \<noteq> []"
    by (simp add: ex_state_def init_def)
  have n: "(1::nat) \<le> 2" by simp
  have h: "displayed ex_state = Some (hd (available_combinations ex_state))"
    by (simp add: ex_state_def init_def)
  have f: "map_sum id available_combinations (switch_times 2 1 ex_state) =
     Inr [''eDP1=DP1'', ''eDP1+DP1'', ''eDP1'', ''DP1'']"
    by (simp add: numeral_2_eq_2 then_do_def switch_selection_def deque_first_def
          deque_rotate_def rotate_right1_def Let_def ex_state_def init_def)
  from rotation_round_trip [OF ne n] h
  have "then_do (switch_times 2 1 ex_state) (switch_times 2 (- 1)) = Inr ex_state"
    by blast
  with ne n h f show ?thesis by blast
qed

section \<open>Combination generator\<close>

subsection \<open>The loop as one fold\<close>

lemma display_string_max_width [simp]:
  "display_string (st\<lparr>max_width := w\<rparr>) p = display_string st p"
  by (simp add: display_string_def get_string_and_set_width_def separator_def Let_def)

lemma add_combination_eq:
  "add_combination comb m (available, cmap, st) =
     (set_add (display_string st (comb, m)) available,
      cmap(display_string st (comb, m) \<mapsto> entry (comb, m)),
      st\<lparr>max_width := max (max_width st) (length (display_string st (comb, m)))\<rparr>)"
  by (simp add: add_combination_def display_string_def entry_def get_string_and_set_width_def Let_def)

lemma fold_add_combination:
  "fold (\<lambda>p. add_combination (fst p) (snd p)) ps (available, cmap, st) =
     (fold (\<lambda>p. set_add (display_string st p)) ps available,
      fold (\<lambda>p cm. cm(display_string st p \<mapsto> entry p)) ps cmap,
      st\<lparr>max_width := fold (\<lambda>p w. max w (length (display_string st p))) ps (max_width st)\<rparr>)"
proof (induction ps arbitrary: available cmap st)
  case Nil
  then show ?case by simp
next
  case (Cons p ps)
  obtain comb m where p: "p = (comb, m)" by (cases p)
  show ?case
    by (simp add: p add_combination_eq Cons.IH)
qed

lemma generator_loop:
  "fold (\<lambda>r acc. fold (\<lambda>comb acc.
              if comb \<noteq> [] then fold (add_combination comb) [Clone, Extend] acc else acc)
            (combinations outs r) acc) rs acc =
   fold (\<lambda>p. add_combination (fst p) (snd p))
     (concat (map (\<lambda>r. concat (map (\<lambda>comb. if comb \<noteq> [] then [(comb, Clone), (comb, Extend)] else [])
                                 (combinations outs r))) rs)) acc"
proof -
  have inner: "fold (\<lambda>comb acc.
              if comb \<noteq> [] then fold (add_combination comb) [Clone, Extend] acc else acc) cs acc =
     fold (\<lambda>p. add_combination (fst p) (snd p))
       (concat (map (\<lambda>comb. if comb \<noteq> [] then [(comb, Clone), (comb, Extend)] else []) cs)) acc"
    for cs acc
    by (induction cs arbitrary: acc) simp_all
  show ?thesis
    by (induction rs arbitrary: acc) (simp_all add: inner)
qed

lemma set_available_combinations_eq:
  "set_available_combinations set_iter st =
     st\<lparr>max_width := fold (\<lambda>p w. max w (length (display_string st p))) (generated (connected_outputs st)) 0,
        available_combinations :=
          set_iter (fold (\<lambda>p. set_add (display_string st p)) (generated (connected_outputs st)) []),
        combinations_map :=
          fold (\<lambda>p cm. cm(display_string st p \<mapsto> entry p)) (generated (connected_outputs st)) Map.empty\<rparr>"
  unfolding set_available_combinations_def generator_loop
  by (simp add: fold_add_combination generated_def connected_outputs_def)

lemma fold_set_add_set:
  "set (fold (\<lambda>p. set_add (f p)) ps ys) = f ` set ps \<union> set ys"
  by (induction ps arbitrary: ys) (auto simp add: set_add_def)


lemma fold_upd_dom:
  "dom (fold (\<lambda>p cm. cm(f p \<mapsto> g p)) ps cm) = f ` set ps \<union> dom cm"
  by (induction ps arbitrary: cm) auto


lemma permutation_facts:
  assumes "\<forall>xs. mset (set_iter xs) = mset xs"
  shows "set (set_iter xs) = set xs" "distinct (set_iter xs) = distinct xs"
        "length (set_iter xs) = length xs"
proof -
  have m: "mset (set_iter xs) = mset xs" using assms by blast
  show "set (set_iter xs) = set xs" using m by (rule mset_eq_setD)
  show "distinct (set_iter xs) = distinct xs" using m by (rule mset_eq_imp_distinct_iff)
  show "length (set_iter xs) = length xs" using m by (rule mset_eq_length)
qed

lemma generated_two:
  "generated [a, b] =
     [([a], Clone), ([a], Extend), ([b], Clone), ([b], Extend), ([a, b], Clone), ([a, b], Extend)]"
  by (simp add: generated_def numeral_2_eq_2 numeral_3_eq_3)

subsection \<open>Detection\<close>

lemma get_layout_fields:
  assumes "get_layout lines st = (lay, st0)"
  shows "format_clone st0 = format_clone st" "format_extend st0 = format_extend st"
    "fallback st0 = fallback st" "fixed_width st0 = fixed_width st"
    "force_on_start st0 = force_on_start st" "attrs st0 = attrs st" "displayed st0 = displayed st"
    "active_mode st0 = active_mode st" "cache_timeout st0 = cache_timeout st"
  using assms
  by (auto simp add: get_layout_def get_string_and_set_width_def Let_def split: prod.splits if_splits)

lemma get_layout_first:
  assumes "get_layout lines st = (lay, st0)" and "active_layout st = None"
  shows "\<exists>active. active_comb st0 = Some active \<and>
           active_layout st0 = Some (py_rstrip (format_opt (separator (active_mode st) st))
                                       (py_join (format_opt (separator (active_mode st) st)) active))"
  using assms
  by (auto simp add: get_layout_def get_string_and_set_width_def separator_def Let_def split: prod.splits)

lemma detect_layout:
  "get_layout lines st = (lay, st0) \<Longrightarrow> layout (detect set_iter lines st) = lay"
  by (simp add: detect_def set_available_combinations_eq)

lemma detect_active:
  "get_layout lines st = (lay, st0) \<Longrightarrow>
     active_comb (detect set_iter lines st) = active_comb st0 \<and>
     active_layout (detect set_iter lines st) = active_layout st0"
  by (simp add: detect_def set_available_combinations_eq)

lemma detect_available:
  "available_combinations (detect set_iter lines st) =
     set_iter (fold (\<lambda>p. set_add (display_string st p))
                 (generated (connected_outputs (detect set_iter lines st))) [])"
proof (cases "get_layout lines st")
  case (Pair lay st0)
  have "display_string (st0\<lparr>layout := lay\<rparr>) = display_string st"
    by (rule ext)
       (simp add: display_string_def get_string_and_set_width_def separator_def Let_def
          get_layout_fields [OF Pair])
  then show ?thesis
    by (simp add: detect_def Pair set_available_combinations_eq connected_outputs_def)
qed

lemma detect_map:
  "combinations_map (detect set_iter lines st) =
     fold (\<lambda>p cm. cm(display_string st p \<mapsto> entry p))
       (generated (connected_outputs (detect set_iter lines st))) Map.empty"
proof (cases "get_layout lines st")
  case (Pair lay st0)
  have "display_string (st0\<lparr>layout := lay\<rparr>) = display_string st"
    by (rule ext)
       (simp add: display_string_def get_string_and_set_width_def separator_def Let_def
          get_layout_fields [OF Pair])
  then show ?thesis
    by (simp add: detect_def Pair set_available_combinations_eq connected_outputs_def)
qed

lemma detect_invariant:
  assumes "\<forall>xs. mset (set_iter xs) = mset xs"
  shows "set (available_combinations (detect set_iter lines st)) =
           dom (combinations_map (detect set_iter lines st))"
  by (simp add: detect_available detect_map permutation_facts [OF assms] fold_set_add_set fold_upd_dom)

text \<open>The keys of an ordered dictionary are distinct, so the connected output ids of every
  detection are.\<close>

lemma od_set_keys:
  "map fst (od_set k v kvs) = (if k \<in> set (map fst kvs) then map fst kvs else map fst kvs @ [k])"
  by (induction kvs) (auto simp add: rev_image_eqI)

lemma od_set_distinct: "distinct (map fst kvs) \<Longrightarrow> distinct (map fst (od_set k v kvs))"
  by (simp add: od_set_keys)

lemma get_layout_line_distinct:
  assumes "get_layout_line line (lay, active, tr) = (lay', active', tr')"
    and "distinct (map fst (connected lay))" "distinct (map fst (disconnected lay))"
  shows "distinct (map fst (connected lay')) \<and> distinct (map fst (disconnected lay'))"
proof (cases "parse_line line")
  case (Inl e)
  with assms show ?thesis by (simp add: get_layout_line_def)
next
  case (Inr r)
  show ?thesis
  proof (cases r)
    case None
    with Inr assms show ?thesis by (simp add: get_layout_line_def)
  next
    case (Some t)
    obtain out info is_active where t: "t = (out, info, is_active)" by (cases t)
    from assms(1) have "lay' = (if state info = ''connected''
              then lay\<lparr>connected := od_set out info (connected lay)\<rparr>
              else lay\<lparr>disconnected := od_set out info (disconnected lay)\<rparr>)"
      by (simp add: get_layout_line_def Inr Some t)
    with assms(2,3) show ?thesis
      by (simp add: od_set_distinct)
  qed
qed

lemma fold_get_layout_line_distinct:
  assumes "fold get_layout_line lines (lay, active, tr) = (lay', active', tr')"
    and "distinct (map fst (connected lay))" "distinct (map fst (disconnected lay))"
  shows "distinct (map fst (connected lay')) \<and> distinct (map fst (disconnected lay'))"
  using assms
proof (induction lines arbitrary: lay active tr)
  case Nil
  then show ?case by simp
next
  case (Cons line lines)
  obtain lay1 active1 tr1 where s: "get_layout_line line (lay, active, tr) = (lay1, active1, tr1)"
    by (cases "get_layout_line line (lay, active, tr)")
  from get_layout_line_distinct [OF s Cons.prems(2,3)]
  have d: "distinct (map fst (connected lay1))" "distinct (map fst (disconnected lay1))"
    by simp_all
  from Cons.prems(1) have "fold get_layout_line lines (lay1, active1, tr1) = (lay', active', tr')"
    by (simp add: s)
  from Cons.IH [OF this d] show ?case .
qed

lemma get_layout_distinct:
  assumes "get_layout lines st = (lay, st0)"
  shows "distinct (map fst (connected lay)) \<and> distinct (map fst (disconnected lay))"
proof -
  obtain lay1 active1 tr1 where
    f: "fold get_layout_line lines
          (\<lparr> connected = [], disconnected = [] \<rparr>, [], trace st @ [Popen ''xrandr'']) =
        (lay1, active1, tr1)"
    by (cases "fold get_layout_line lines
          (\<lparr> connected = [], disconnected = [] \<rparr>, [], trace st @ [Popen ''xrandr''])")
  from fold_get_layout_line_distinct [OF f]
  have d: "distinct (map fst (connected lay1)) \<and> distinct (map fst (disconnected lay1))"
    by simp
  from assms have "lay = lay1"
    by (simp add: get_layout_def f Let_def split: if_splits prod.splits)
  with d show ?thesis by simp
qed

lemma detect_distinct: "distinct (connected_outputs (detect set_iter lines st))"
proof (cases "get_layout lines st")
  case (Pair lay st0)
  from get_layout_distinct [OF Pair] detect_layout [OF Pair, of set_iter]
  show ?thesis by (simp add: connected_outputs_def)
qed

lemmas detect_eval =
  connected_outputs_def generated_def set_add_def display_string_def entry_def
  get_string_and_set_width_def separator_def format_opt_def py_rstrip_def Let_def
  numeral_2_eq_2 numeral_3_eq_3

lemmas layout_eval =
  get_layout_def get_layout_line_def parse_line_def py_strip_def py_rstrip_def
  get_string_and_set_width_def separator_def format_opt_def Let_def

lemma ex_lines_layout:
  "get_layout ex_lines init =
      (\<lparr> connected = [(''eDP1'', ex_info ''connected''), (''DP1'', ex_info ''connected'')],
         disconnected = [] \<rparr>,
       init\<lparr>active_comb := Some [], active_layout := Some [], trace := [Popen ''xrandr'']\<rparr>)"
    by (simp add: get_layout_def get_layout_line_def parse_line_def py_strip_def py_rstrip_def
          get_string_and_set_width_def separator_def format_opt_def ex_lines_def init_def
          ex_info_def Let_def)

subsection \<open>Two connected outputs\<close>

text \<open>Claim C2, as amended. On the first detection cycle (no active layout recorded yet), with
  the default separators, connected outputs [eDP1, DP1] and no output carrying an active
  mode, the active layout becomes the empty string and the available display strings are
  exactly the four strings eDP1, DP1, eDP1=DP1 and eDP1+DP1, whatever the order in which
  the set is iterated.\<close>

theorem first_cycle_two_outputs:
  assumes first: "active_layout st = None"
    and seps: "format_clone st = ''=''" "format_extend st = ''+''"
    and outs: "connected_outputs (detect set_iter lines st) = [''eDP1'', ''DP1'']"
    and idle: "active_comb (detect set_iter lines st) = Some []"
    and perm: "\<forall>xs. mset (set_iter xs) = mset xs"
  shows "active_layout (detect set_iter lines st) = Some [] \<and>
         set (available_combinations (detect set_iter lines st)) =
           {''eDP1'', ''DP1'', ''eDP1=DP1'', ''eDP1+DP1''} \<and>
         length (available_combinations (detect set_iter lines st)) = 4"
proof -
  obtain lay st0 where g: "get_layout lines st = (lay, st0)"
    by (cases "get_layout lines st")
  from get_layout_first [OF g first] obtain active where
    a: "active_comb st0 = Some active"
       "active_layout st0 = Some (py_rstrip (format_opt (separator (active_mode st) st))
                                       (py_join (format_opt (separator (active_mode st) st)) active))"
    by blast
  from idle a(1) detect_active [OF g, of set_iter] have "active = []" by simp
  with a(2) detect_active [OF g, of set_iter]
  have l: "active_layout (detect set_iter lines st) = Some []"
    by (simp add: py_rstrip_def)
  have d: "display_string st ([''eDP1''], Clone) = ''eDP1''"
       "display_string st ([''eDP1''], Extend) = ''eDP1''"
       "display_string st ([''DP1''], Clone) = ''DP1''"
       "display_string st ([''DP1''], Extend) = ''DP1''"
       "display_string st ([''eDP1'', ''DP1''], Clone) = ''eDP1=DP1''"
       "display_string st ([''eDP1'', ''DP1''], Extend) = ''eDP1+DP1''"
    by (simp_all add: display_string_def get_string_and_set_width_def separator_def format_opt_def
          py_rstrip_def seps Let_def)
  have av: "available_combinations (detect set_iter lines st) =
              set_iter [''eDP1'', ''DP1'', ''eDP1=DP1'', ''eDP1+DP1'']"
    by (simp add: detect_available outs generated_two d set_add_def)
  from l show ?thesis
    by (simp add: av permutation_facts [OF perm] insert_commute)
qed

text \<open>Claim C2, as amended, on the example detection, the set iterated in reverse order.\<close>

theorem first_cycle_two_outputs_witness:
  "active_layout init = None \<and> format_clone init = ''='' \<and> format_extend init = ''+'' \<and>
   connected_outputs (detect rev ex_lines init) = [''eDP1'', ''DP1''] \<and>
   active_comb (detect rev ex_lines init) = Some [] \<and>
   (\<forall>xs. mset (rev xs :: string list) = mset xs) \<and>
   active_layout (detect rev ex_lines init) = Some [] \<and>
   set (available_combinations (detect rev ex_lines init)) =
     {''eDP1'', ''DP1'', ''eDP1=DP1'', ''eDP1+DP1''} \<and>
   length (available_combinations (detect rev ex_lines init)) = 4"
proof -
  note g = ex_lines_layout
  have h1: "active_layout init = None" "format_clone init = ''=''" "format_extend init = ''+''"
    by (simp_all add: init_def)
  have h2: "connected_outputs (detect rev ex_lines init) = [''eDP1'', ''DP1'']"
    by (simp add: connected_outputs_def detect_layout [OF g])
  have h3: "active_comb (detect rev ex_lines init) = Some []"
    using detect_active [OF g, of rev] by simp
  have h4: "\<forall>xs. mset (rev xs :: string list) = mset xs"
    by simp
  from first_cycle_two_outputs [OF h1 h2 h3 h4] h1 h2 h3 h4 show ?thesis
    by blast
qed

text \<open>Claim C2 as stated fails on the example detection: the two strings that list DP1 before
  eDP1 are not generated, and four strings are available, not six.\<close>

theorem first_cycle_six_strings_counterexample:
  "connected_outputs (detect (\<lambda>xs. xs) ex_lines init) = [''eDP1'', ''DP1''] \<and>
   disconnected (layout (detect (\<lambda>xs. xs) ex_lines init)) = [] \<and>
   active_comb (detect (\<lambda>xs. xs) ex_lines init) = Some [] \<and>
   available_combinations (detect (\<lambda>xs. xs) ex_lines init) =
     [''eDP1'', ''DP1'', ''eDP1=DP1'', ''eDP1+DP1''] \<and>
   ''DP1+eDP1'' \<notin> set (available_combinations (detect (\<lambda>xs. xs) ex_lines init)) \<and>
   ''DP1=eDP1'' \<notin> set (available_combinations (detect (\<lambda>xs. xs) ex_lines init))"
proof -
  note g = ex_lines_layout
  have o: "connected_outputs (detect (\<lambda>xs. xs) ex_lines init) = [''eDP1'', ''DP1'']"
    by (simp add: connected_outputs_def detect_layout [OF g])
  have d: "disconnected (layout (detect (\<lambda>xs. xs) ex_lines init)) = []"
    by (simp add: detect_layout [OF g])
  have a: "active_comb (detect (\<lambda>xs. xs) ex_lines init) = Some []"
    using detect_active [OF g, of "\<lambda>xs. xs"] by simp
  have av: "available_combinations (detect (\<lambda>xs. xs) ex_lines init) =
     [''eDP1'', ''DP1'', ''eDP1=DP1'', ''eDP1+DP1'']"
    unfolding detect_available o generated_two
    by (simp add: set_add_def display_string_def get_string_and_set_width_def separator_def
          format_opt_def py_rstrip_def init_def Let_def)
  show ?thesis
    unfolding av using o d a by simp
qed

subsection \<open>Combinations and sublists\<close>










subsection \<open>Joining and splitting\<close>








subsection \<open>Display strings identify the entries\<close>














section \<open>Reconcile with force, and the fallback\<close>

lemma set_rotate_right1 [simp]: "set (rotate_right1 xs) = set xs"
proof (cases xs rule: rev_cases)
  case Nil
  then show ?thesis by (simp add: rotate_right1_def)
next
  case (snoc ys y)
  then show ?thesis by (auto simp add: rotate_right1_def)
qed

lemma set_funpow_rotate_right1 [simp]: "set ((rotate_right1 ^^ n) xs) = set xs"
  by (induction n) simp_all










lemma choose_loop_ring:
  "choose_loop n force_refresh st = Inr st1 \<Longrightarrow>
     set (available_combinations st1) = set (available_combinations st) \<and>
     combinations_map st1 = combinations_map st"
proof (induction n arbitrary: st)
  case 0
  show ?case
  proof (cases "available_combinations st")
    case Nil
    with "0.prems" have "force_refresh = False \<and> st1 = st\<lparr>trace := trace st @
                  [Syslog ''xrandr error=\"displayed combination is not available\"'']\<rparr>"
      by (cases force_refresh) (simp_all add: deque_first_def)
    then show ?thesis by simp
  next
    case (Cons h t)
    with "0.prems" have "st1 = st\<lparr>displayed := Some h\<rparr> \<or> st1 = st\<lparr>trace := trace st @
                  [Syslog ''xrandr error=\"displayed combination is not available\"'']\<rparr>"
      by (cases force_refresh) (simp_all add: deque_first_def)
    then show ?thesis by auto
  qed
next
  case (Suc n)
  show ?case
  proof (cases "available_combinations st")
    case Nil
    with Suc.prems show ?thesis by (simp add: deque_first_def)
  next
    case (Cons h t)
    let ?st1 = "st\<lparr>available_combinations := deque_rotate 1 (available_combinations st)\<rparr>"
    have r: "deque_rotate 1 (available_combinations st) = rotate_right1 (available_combinations st)"
      by (simp add: deque_rotate_def)
    have unfold: "choose_loop (Suc n) force_refresh st =
       (if displayed st = None \<and> Some h = active_layout st then Inr (st\<lparr>displayed := Some h\<rparr>)
        else if displayed st = Some h then Inr st
        else choose_loop n force_refresh ?st1)"
      by (simp add: Cons deque_first_def)
    show ?thesis
    proof (cases "displayed st = None \<and> Some h = active_layout st")
      case True
      with Suc.prems unfold have "st1 = st\<lparr>displayed := Some h\<rparr>" by simp
      then show ?thesis by simp
    next
      case False
      note first = this
      show ?thesis
      proof (cases "displayed st = Some h")
        case True
        with Suc.prems unfold first have "st1 = st" by simp
        then show ?thesis by simp
      next
        case False
        with Suc.prems unfold first have "choose_loop n force_refresh ?st1 = Inr st1"
          by simp
        from Suc.IH [OF this] show ?thesis by (simp add: r)
      qed
    qed
  qed
qed

lemma apply_py_ring:
  "available_combinations (apply_py run force st) = available_combinations st \<and>
   combinations_map (apply_py run force st) = combinations_map st"
proof (cases "apply_target force st")
  case None
  then show ?thesis by (simp add: apply_py_None)
next
  case (Some t)
  obtain combination m where t: "t = (combination, m)" by (cases t)
  show ?thesis
    by (simp add: apply_py_Some [OF Some [unfolded t]])
qed

lemma force_force_on_start_ring:
  assumes "force_force_on_start run st = Inr st1"
  shows "set (available_combinations st1) = set (available_combinations st) \<and>
         combinations_map st1 = combinations_map st"
proof (cases "in_available (force_on_start st) st")
  case False
  with assms show ?thesis by (simp add: force_force_on_start_def)
next
  case True
  let ?st0 = "st\<lparr>displayed := force_on_start st, force_on_start := None\<rparr>"
  from True assms obtain st2 where
    c: "choose_what_to_display True ?st0 = Inr st2"
    and s: "st1 = refresh_py3status (apply_py run True st2)"
    by (auto simp add: force_force_on_start_def split: sum.splits)
  from choose_loop_ring [OF c [unfolded choose_what_to_display_def]]
  have "set (available_combinations st2) = set (available_combinations st) \<and>
        combinations_map st2 = combinations_map st"
    by simp
  with apply_py_ring [of run True st2] show ?thesis
    by (simp add: s refresh_py3status_def)
qed

text \<open>The hypothesis of the fallback theorem below holds where \<^verbatim>\<open>xrandr\<close> reaches the
  fallback block: after detection and generation the available display strings are the
  keys of the lookup map, and Reconcile, the forced start and Apply only rotate the ring.\<close>

lemma fallback_precondition:
  assumes "\<forall>xs. mset (set_iter xs) = mset xs"
    and "choose_what_to_display False (detect set_iter lines st) = Inr st2"
    and "(if force_on_start st2 \<noteq> None
          then force_force_on_start run (st2\<lparr>trace := trace st2 @ [Sleep 1]\<rparr>)
          else Inr st2) = Inr st3"
  shows "set (available_combinations st3) \<subseteq> dom (combinations_map st3)"
proof -
  from choose_loop_ring [OF assms(2) [unfolded choose_what_to_display_def]]
  have a: "set (available_combinations st2) = set (available_combinations (detect set_iter lines st))"
    and b: "combinations_map st2 = combinations_map (detect set_iter lines st)"
    by simp_all
  have "set (available_combinations st3) = set (available_combinations st2) \<and>
        combinations_map st3 = combinations_map st2"
  proof (cases "force_on_start st2 \<noteq> None")
    case True
    with assms(3) have "force_force_on_start run (st2\<lparr>trace := trace st2 @ [Sleep 1]\<rparr>) = Inr st3"
      by simp
    from force_force_on_start_ring [OF this] show ?thesis by simp
  next
    case False
    with assms(3) show ?thesis by simp
  qed
  with a b detect_invariant [OF assms(1), of lines st] show ?thesis by simp
qed




section \<open>The refresh cycle\<close>

lemma xrandr_detect:
  "xrandr set_iter run now lines cfg st =
     (case choose_what_to_display False (detect set_iter lines st) of
         Inl e \<Rightarrow> Inl e
       | Inr st2 \<Rightarrow>
           (case (if fixed_width st2
                  then (case center (displayed st2) st2 of
                          Inl e \<Rightarrow> Inl e | Inr t \<Rightarrow> Inr (Some t))
                  else Inr (displayed st2)) of
              Inl e \<Rightarrow> Inl e
            | Inr text \<Rightarrow>
                (let resp = \<lparr> cached_until = now + cache_timeout st2,
                              full_text = text, color = None \<rparr>;
                     resp1 = (if displayed st2 = active_layout st2
                              then resp\<lparr>color := Some (color_good cfg)\<rparr>
                              else if \<not> in_available (displayed st2) st2
                              then resp\<lparr>color := Some (color_bad cfg)\<rparr>
                              else resp)
                 in case (if force_on_start st2 \<noteq> None
                          then force_force_on_start run (st2\<lparr>trace := trace st2 @ [Sleep 1]\<rparr>)
                          else Inr st2) of
                      Inl e \<Rightarrow> Inl e
                    | Inr st3 \<Rightarrow> fallback_detection run cfg (resp1, st3))))"
  by (cases "get_layout lines st") (simp add: xrandr_def detect_def)

lemma ex_lines_detect: "detect (\<lambda>xs. xs) ex_lines init = ex_detected"
  unfolding detect_def ex_lines_layout prod.case set_available_combinations_eq
  by (simp add: connected_outputs_def generated_two set_add_def display_string_def
        get_string_and_set_width_def separator_def format_opt_def py_rstrip_def init_def
        ex_detected_def entry_def Let_def)

lemma ex_detected_choose: "choose_what_to_display False ex_detected =
   Inr (ex_detected\<lparr>trace := [Popen ''xrandr'',
      Syslog ''xrandr error=\"displayed combination is not available\"'']\<rparr>)"
  by (simp add: choose_what_to_display_def ex_detected_def init_def deque_first_def deque_rotate_def
        rotate_right1_def)

lemma ex_first_cycle:
  "xrandr (\<lambda>xs. xs) run_ok 0 ex_lines ex_cfg init =
     Inl (TypeError ''unsupported format string passed to NoneType.__format__'')"
  unfolding xrandr_detect ex_lines_detect ex_detected_choose
  by (simp add: ex_detected_def init_def center_def)

lemma ex_nothing_connected:
  "xrandr (\<lambda>xs. xs) run_ok 0 ex_unplugged_lines ex_cfg init =
     Inl (TypeError ''unsupported format string passed to NoneType.__format__'')"
proof -
  have g: "get_layout ex_unplugged_lines init =
      (\<lparr> connected = [],
         disconnected = [(''eDP1'', ex_info ''disconnected''), (''HDMI1'', ex_info ''disconnected'')] \<rparr>,
       init\<lparr>active_comb := Some [], active_layout := Some [], trace := [Popen ''xrandr'']\<rparr>)"
    by (simp add: layout_eval ex_unplugged_lines_def init_def ex_info_def)
  have d: "detect (\<lambda>xs. xs) ex_unplugged_lines init =
      init\<lparr>active_comb := Some [], active_layout := Some [],
        layout := \<lparr> connected = [],
         disconnected = [(''eDP1'', ex_info ''disconnected''), (''HDMI1'', ex_info ''disconnected'')] \<rparr>,
        trace := [Popen ''xrandr'']\<rparr>"
    unfolding detect_def g prod.case set_available_combinations_eq
    by (simp add: detect_eval init_def)
  show ?thesis
    unfolding xrandr_detect d
    by (simp add: choose_what_to_display_def center_def init_def)
qed

lemma ex_panel_cycle:
  "xrandr (\<lambda>xs. xs) run_ok 0 ex_panel_lines ex_cfg init =
     Inr (\<lparr> cached_until = 10, full_text = Some ''eDP1'', color = Some ''#00FF00'' \<rparr>, ex_panel)"
proof -
  have g: "get_layout ex_panel_lines init =
      (\<lparr> connected = [(''eDP1'',
                     \<lparr> infos = ''(normal left inverted right x axis y axis) 310mm x 170mm'',
                       mode = Some ''1920x1080+0+0'', state = ''connected'' \<rparr>)],
         disconnected = [(''HDMI1'', ex_info ''disconnected'')] \<rparr>,
       init\<lparr>active_comb := Some [''eDP1''], active_layout := Some ''eDP1'', max_width := 4,
            trace := [Popen ''xrandr'']\<rparr>)"
    by (simp add: layout_eval ex_panel_lines_def init_def ex_info_def)
  have d: "detect (\<lambda>xs. xs) ex_panel_lines init = ex_panel\<lparr>displayed := None\<rparr>"
    unfolding detect_def g prod.case set_available_combinations_eq
    by (simp add: detect_eval init_def ex_panel_def)
  have c: "choose_what_to_display False (ex_panel\<lparr>displayed := None\<rparr>) = Inr ex_panel"
    by (simp add: choose_what_to_display_def ex_panel_def init_def deque_first_def)
  show ?thesis
    unfolding xrandr_detect d c
    by (simp add: center_def fallback_detection_def in_available_def ex_panel_def init_def
          ex_cfg_def)
qed

lemma ex_unplugged_cycle:
  "xrandr (\<lambda>xs. xs) run_ok 10 ex_unplugged_lines ex_cfg ex_panel =
     Inl (IndexError ''deque index out of range'')"
proof -
  have g: "get_layout ex_unplugged_lines ex_panel =
      (\<lparr> connected = [],
         disconnected = [(''eDP1'', ex_info ''disconnected''), (''HDMI1'', ex_info ''disconnected'')] \<rparr>,
       ex_panel\<lparr>trace := [Popen ''xrandr'', Popen ''xrandr'']\<rparr>)"
    by (simp add: layout_eval ex_unplugged_lines_def ex_panel_def init_def ex_info_def)
  have d: "detect (\<lambda>xs. xs) ex_unplugged_lines ex_panel =
      ex_panel\<lparr>max_width := 0,
        layout := \<lparr> connected = [],
         disconnected = [(''eDP1'', ex_info ''disconnected''), (''HDMI1'', ex_info ''disconnected'')] \<rparr>,
        available_combinations := [], combinations_map := Map.empty,
        trace := [Popen ''xrandr'', Popen ''xrandr'']\<rparr>"
    unfolding detect_def g prod.case set_available_combinations_eq
    by (simp add: detect_eval init_def ex_panel_def)
  show ?thesis
    unfolding xrandr_detect d
    by (simp add: choose_what_to_display_def center_def fallback_detection_def in_available_def
          fallback_to_available_output_def deque_first_def ex_panel_def init_def ex_cfg_def)
qed

text \<open>Claim C9 fails on the code. A first cycle in which no output is active, or none is
  connected, leaves \<open>displayed\<close> unset, and centring it raises a type error (Python 3).
  A cycle in which nothing is connected any more, after a cycle whose single output was
  active, raises an index error in the fallback, which reads the head of the empty ring.
  In each case the cycle returns no response.\<close>

theorem refresh_cycle_raises:
  "xrandr (\<lambda>xs. xs) run_ok 0 ex_lines ex_cfg init =
     Inl (TypeError ''unsupported format string passed to NoneType.__format__'') \<and>
   xrandr (\<lambda>xs. xs) run_ok 0 ex_unplugged_lines ex_cfg init =
     Inl (TypeError ''unsupported format string passed to NoneType.__format__'') \<and>
   xrandr (\<lambda>xs. xs) run_ok 0 ex_panel_lines ex_cfg init =
     Inr (\<lparr> cached_until = 10, full_text = Some ''eDP1'', color = Some ''#00FF00'' \<rparr>, ex_panel) \<and>
   xrandr (\<lambda>xs. xs) run_ok 10 ex_unplugged_lines ex_cfg ex_panel =
     Inl (IndexError ''deque index out of range'')"
  using ex_first_cycle ex_nothing_connected ex_panel_cycle ex_unplugged_cycle by blast

end
